theory Spec2Isabelle
  imports
    Main
    "HOL-Library.Char_ord"
    "HOL-Library.List_Lexorder"
    "HOL-Library.Product_Lexorder"
    "HOL-Library.Multiset"
begin

section \<open>Data model of the parking store\<close>

text \<open>
  The store of \<^verbatim>\<open>database.py\<close> and \<^verbatim>\<open>database_postgres.py\<close> is three tables. A table is
  the list of its rows in insertion order. The columns \<^verbatim>\<open>created_at\<close> of every table
  and \<^verbatim>\<open>id\<close> of \<^verbatim>\<open>bookings\<close> are never read into a result of any operation and are left
  out; of the \<^verbatim>\<open>users\<close> table only the primary key matters to the booking operations
  (as the target of the foreign key \<^verbatim>\<open>bookings.user_id\<close>). Timestamps are natural numbers
  (a later time is a larger number) and \<^verbatim>\<open>total_amount\<close> is an integer, as the booking
  route computes it.
\<close>

record slot_row =
  s_id :: nat
  slot_type :: string
  slot_name :: string
  price :: int
  is_booked :: bool

record booking_row =
  slot_id :: nat
  user_id :: "nat option"
  booking_time :: nat
  booking_reference :: string
  total_amount :: int
  status :: string

record db =
  slots :: "slot_row list"
  users :: "nat list"
  bookings :: "booking_row list"

text \<open>Exceptions that leave an operation, as values.\<close>

datatype db_error = IntegrityError | DataError | KeyError

section \<open>String formatting\<close>

text \<open>
  \<^verbatim>\<open>f'{i}'\<close> of a non-negative integer is its decimal numeral; \<^verbatim>\<open>f'{i:02d}'\<close> pads it with
  zeros on the left to width 2; \<^verbatim>\<open>sep.join(xs)\<close> puts \<^verbatim>\<open>sep\<close> between the elements.
\<close>

definition digit_char :: "nat \<Rightarrow> char" where
  "digit_char d =
     (if d = 0 then CHR ''0'' else if d = 1 then CHR ''1'' else if d = 2 then CHR ''2''
      else if d = 3 then CHR ''3'' else if d = 4 then CHR ''4'' else if d = 5 then CHR ''5''
      else if d = 6 then CHR ''6'' else if d = 7 then CHR ''7'' else if d = 8 then CHR ''8''
      else CHR ''9'')"

function str_nat :: "nat \<Rightarrow> string" where
  "str_nat n = (if n < 10 then [digit_char n] else str_nat (n div 10) @ [digit_char (n mod 10)])"
  by pat_completeness auto
termination
  by (relation "measure id") auto

declare str_nat.simps [simp del]

definition fmt_02d :: "nat \<Rightarrow> string" where
  "fmt_02d n = replicate (2 - length (str_nat n)) (CHR ''0'') @ str_nat n"

fun join :: "string \<Rightarrow> string list \<Rightarrow> string" where
  "join sep [] = []"
| "join sep [x] = x"
| "join sep (x # y # ys) = x @ sep @ join sep (y # ys)"

section \<open>Initialisation\<close>

text \<open>
  \<^verbatim>\<open>populate_slots\<close> builds the list \<^verbatim>\<open>slots_to_insert\<close> with three loops and hands it to
  \<^verbatim>\<open>executemany\<close>. Each insert gives the row the next id and the column default
  \<^verbatim>\<open>is_booked = 0\<close>, and fails with an integrity error when the name is already in the
  table (\<^verbatim>\<open>slot_name TEXT NOT NULL UNIQUE\<close>).
\<close>

definition slots_to_insert :: "(string \<times> string \<times> int) list" where
  "slots_to_insert =
     map (\<lambda>i. (''vip'', ''V'' @ str_nat i, 500)) [1..<11]
     @ concat (map (\<lambda>row. map (\<lambda>col. (''executive'', ''E'' @ fmt_02d row @ fmt_02d col, 350))
                               [1..<21]) [1..<6])
     @ map (\<lambda>i. (''normal'', ''N'' @ str_nat i, 320)) [1..<12]"

definition next_id :: "slot_row list \<Rightarrow> nat" where
  "next_id rows = Suc (fold max (map s_id rows) 0)"

definition insert_slot :: "string \<times> string \<times> int \<Rightarrow> slot_row list \<Rightarrow> db_error + slot_row list" where
  "insert_slot v rows =
     (case v of (t, n, p) \<Rightarrow>
        if n \<in> set (map slot_name rows) then Inl IntegrityError
        else Inr (rows @ [\<lparr>s_id = next_id rows, slot_type = t, slot_name = n, price = p,
                           is_booked = False\<rparr>]))"

fun insert_slots :: "(string \<times> string \<times> int) list \<Rightarrow> slot_row list \<Rightarrow> db_error + slot_row list" where
  "insert_slots [] rows = Inr rows"
| "insert_slots (v # vs) rows =
     (case insert_slot v rows of Inl e \<Rightarrow> Inl e | Inr rows' \<Rightarrow> insert_slots vs rows')"

definition populate_slots :: "slot_row list \<Rightarrow> db_error + slot_row list" where
  "populate_slots rows = insert_slots slots_to_insert rows"

text \<open>
  \<^verbatim>\<open>init_db\<close>: the tables exist (empty on a new file); the catalog is inserted only when
  the slots table is empty, the default administrator only when the users table is.
  An exception rolls the transaction back and leaves the function.
\<close>

definition empty_db :: db where
  "empty_db = \<lparr>slots = [], users = [], bookings = []\<rparr>"

definition init_db :: "db \<Rightarrow> db_error + db" where
  "init_db d =
     (case (if length (slots d) = 0 then populate_slots (slots d) else Inr (slots d)) of
        Inl e \<Rightarrow> Inl e
      | Inr rows \<Rightarrow>
          Inr (d\<lparr>slots := rows,
                 users := (if length (users d) = 0 then [1] else users d)\<rparr>))"

section \<open>Fee calculator\<close>






section \<open>The booking transaction (SQLite module)\<close>

text \<open>
  The dictionary a call returns: \<^verbatim>\<open>{'success': False, 'message': m}\<close>, with the entry
  \<^verbatim>\<open>'error'\<close> that only the PostgreSQL reset adds, or the success dictionary of
  \<^verbatim>\<open>book_slots\<close> with message, \<^verbatim>\<open>booked_count\<close>, \<^verbatim>\<open>price\<close> and \<^verbatim>\<open>booking_reference\<close>, or
  the success dictionary of the reset, which has a message only.
\<close>

datatype op_result =
  Failure string
| FailureWithError string string
| Success string nat int string
| Done string

text \<open>
  A query without \<^verbatim>\<open>ORDER BY\<close> returns its rows in table order. \<^verbatim>\<open>executemany\<close> inserts
  the booking rows one after the other; the column \<^verbatim>\<open>booking_reference TEXT UNIQUE\<close>
  rejects a row whose reference is already in the table. SQLite does not enforce the
  foreign keys (the module never switches them on).
\<close>

definition insert_booking :: "booking_row \<Rightarrow> booking_row list \<Rightarrow> db_error + booking_row list" where
  "insert_booking r rows =
     (if booking_reference r \<in> set (map booking_reference rows) then Inl IntegrityError
      else Inr (rows @ [r]))"

fun insert_bookings :: "booking_row list \<Rightarrow> booking_row list \<Rightarrow> db_error + booking_row list" where
  "insert_bookings [] rows = Inr rows"
| "insert_bookings (r # rs) rows =
     (case insert_booking r rows of Inl e \<Rightarrow> Inl e | Inr rows' \<Rightarrow> insert_bookings rs rows')"

definition already_booked :: "string \<Rightarrow> string list \<Rightarrow> db \<Rightarrow> string list" where
  "already_booked tier slots_to_book d =
     map slot_name
       (filter (\<lambda>s. slot_name s \<in> set slots_to_book \<and> slot_type s = tier \<and> is_booked s)
               (slots d))"

definition slot_data :: "string \<Rightarrow> string list \<Rightarrow> db \<Rightarrow> slot_row list" where
  "slot_data tier slots_to_book d =
     filter (\<lambda>s. slot_name s \<in> set slots_to_book \<and> slot_type s = tier) (slots d)"

definition mark_booked :: "nat list \<Rightarrow> slot_row list \<Rightarrow> slot_row list" where
  "mark_booked slot_ids rows =
     map (\<lambda>s. if s_id s \<in> set slot_ids then s\<lparr>is_booked := True\<rparr> else s) rows"

definition bookings_to_insert :: "nat list \<Rightarrow> nat option \<Rightarrow> string \<Rightarrow> int \<Rightarrow> nat \<Rightarrow> booking_row list" where
  "bookings_to_insert slot_ids uid ref amount now =
     map (\<lambda>i. \<lparr>slot_id = i, user_id = uid, booking_time = now, booking_reference = ref,
               total_amount = amount, status = ''active''\<rparr>) slot_ids"

text \<open>
  \<^verbatim>\<open>book_slots(slot_type, slots_to_book, user_id, total_amount)\<close>. The token drawn by
  \<^verbatim>\<open>secrets.token_hex(8).upper()\<close> and the reading of \<^verbatim>\<open>datetime.now()\<close> are the
  parameters \<open>ref\<close> and \<open>now\<close>. The result is the store after the call together with
  the exception raised or the dictionary returned; an exception passes through the
  connection's context manager, which rolls the transaction back.
\<close>

definition book_slots ::
  "string \<Rightarrow> string list \<Rightarrow> nat option \<Rightarrow> int \<Rightarrow> string \<Rightarrow> nat \<Rightarrow> db \<Rightarrow> db \<times> (db_error + op_result)" where
  "book_slots tier slots_to_book uid amount ref now d =
     (if slots_to_book = [] then (d, Inr (Failure ''No slots provided''))
      else if already_booked tier slots_to_book d \<noteq> [] then
        (d, Inr (Failure (''Slots already booked: ''
                          @ join '', '' (already_booked tier slots_to_book d))))
      else
        (case slot_data tier slots_to_book d of
           [] \<Rightarrow> (d, Inr (Failure ''Invalid slots''))
         | first # rest \<Rightarrow>
             (let slot_ids = map s_id (first # rest);
                  d1 = d\<lparr>slots := mark_booked slot_ids (slots d)\<rparr>
              in case insert_bookings (bookings_to_insert slot_ids uid ref amount now)
                                      (bookings d1) of
                   Inl e \<Rightarrow> (d, Inl e)
                 | Inr rows \<Rightarrow>
                     (d1\<lparr>bookings := rows\<rparr>,
                      Inr (Success (''Successfully booked '' @ str_nat (length slots_to_book)
                                    @ '' slots'')
                                   (length slots_to_book) (price first) ref)))))"

section \<open>Reset, statistics and status (SQLite module)\<close>

definition reset_all_bookings :: "db \<Rightarrow> db \<times> (db_error + op_result)" where
  "reset_all_bookings d =
     (d\<lparr>slots := map (\<lambda>s. s\<lparr>is_booked := False\<rparr>) (slots d), bookings := []\<rparr>,
      Inr (Done ''All bookings reset''))"

text \<open>
  \<^verbatim>\<open>get_booking_stats\<close>: one result row per group of \<^verbatim>\<open>GROUP BY slot_type\<close>, that is per
  slot type that occurs in the table, with the count of the group and the two sums
  over it; the loop stores each row in the dictionary \<^verbatim>\<open>stats\<close> under its slot type.
\<close>

record tier_stats =
  total :: nat
  booked :: nat
  available :: nat

definition stats_rows :: "db \<Rightarrow> (string \<times> nat \<times> nat \<times> nat) list" where
  "stats_rows d =
     map (\<lambda>t. let grp = filter (\<lambda>s. slot_type s = t) (slots d)
               in (t, length grp,
                   sum_list (map (\<lambda>s. if is_booked s then 1 else 0) grp),
                   sum_list (map (\<lambda>s. if \<not> is_booked s then 1 else 0) grp)))
         (sort (remdups (map slot_type (slots d))))"

definition get_booking_stats :: "db \<Rightarrow> (string \<rightharpoonup> tier_stats)" where
  "get_booking_stats d =
     fold (\<lambda>row stats. case row of (t, n, b, a) \<Rightarrow>
             stats(t \<mapsto> \<lparr>total = n, booked = b, available = a\<rparr>))
          (stats_rows d) Map.empty"








section \<open>Booking lookups (SQLite module)\<close>










section \<open>The PostgreSQL module\<close>












section \<open>Reachable stores\<close>

text \<open>
  The stores that initialisation of a new database followed by successful bookings and
  resets can produce.
\<close>

inductive reachable :: "db \<Rightarrow> bool" where
  reach_init: "init_db empty_db = Inr d \<Longrightarrow> reachable d"
| reach_book:
    "reachable d \<Longrightarrow> book_slots tier req uid amount ref now d = (d', Inr (Success m c p r))
     \<Longrightarrow> reachable d'"
| reach_reset:
    "reachable d \<Longrightarrow> reset_all_bookings d = (d', Inr (Done m)) \<Longrightarrow> reachable d'"

text \<open>A slot is occupied exactly when an active booking row refers to it.\<close>

definition occupancy_consistent :: "db \<Rightarrow> bool" where
  "occupancy_consistent d =
     list_all (\<lambda>s. is_booked s =
                    list_ex (\<lambda>b. slot_id b = s_id s \<and> status b = ''active'') (bookings d))
              (slots d)"

text \<open>
  The catalog as the specification lists it: the names of each tier in order, every slot
  with its tier's price and unoccupied.
\<close>

definition vip_names :: "string list" where
  "vip_names =
     [''V1'', ''V2'', ''V3'', ''V4'', ''V5'', ''V6'', ''V7'', ''V8'', ''V9'', ''V10'']"

definition executive_names :: "string list" where
  "executive_names =
     [''E0101'', ''E0102'', ''E0103'', ''E0104'', ''E0105'', ''E0106'', ''E0107'',
      ''E0108'', ''E0109'', ''E0110'', ''E0111'', ''E0112'', ''E0113'', ''E0114'',
      ''E0115'', ''E0116'', ''E0117'', ''E0118'', ''E0119'', ''E0120'', ''E0201'',
      ''E0202'', ''E0203'', ''E0204'', ''E0205'', ''E0206'', ''E0207'', ''E0208'',
      ''E0209'', ''E0210'', ''E0211'', ''E0212'', ''E0213'', ''E0214'', ''E0215'',
      ''E0216'', ''E0217'', ''E0218'', ''E0219'', ''E0220'', ''E0301'', ''E0302'',
      ''E0303'', ''E0304'', ''E0305'', ''E0306'', ''E0307'', ''E0308'', ''E0309'',
      ''E0310'', ''E0311'', ''E0312'', ''E0313'', ''E0314'', ''E0315'', ''E0316'',
      ''E0317'', ''E0318'', ''E0319'', ''E0320'', ''E0401'', ''E0402'', ''E0403'',
      ''E0404'', ''E0405'', ''E0406'', ''E0407'', ''E0408'', ''E0409'', ''E0410'',
      ''E0411'', ''E0412'', ''E0413'', ''E0414'', ''E0415'', ''E0416'', ''E0417'',
      ''E0418'', ''E0419'', ''E0420'', ''E0501'', ''E0502'', ''E0503'', ''E0504'',
      ''E0505'', ''E0506'', ''E0507'', ''E0508'', ''E0509'', ''E0510'', ''E0511'',
      ''E0512'', ''E0513'', ''E0514'', ''E0515'', ''E0516'', ''E0517'', ''E0518'',
      ''E0519'', ''E0520'']"

definition normal_names :: "string list" where
  "normal_names =
     [''N1'', ''N2'', ''N3'', ''N4'', ''N5'', ''N6'', ''N7'', ''N8'', ''N9'', ''N10'',
      ''N11'']"

definition fixed_catalog :: "(string \<times> string \<times> int \<times> bool) list" where
  "fixed_catalog =
     map (\<lambda>n. (''vip'', n, 500, False)) vip_names
     @ map (\<lambda>n. (''executive'', n, 350, False)) executive_names
     @ map (\<lambda>n. (''normal'', n, 320, False)) normal_names"

definition columns :: "slot_row \<Rightarrow> string \<times> string \<times> int \<times> bool" where
  "columns s = (slot_type s, slot_name s, price s, is_booked s)"

text \<open>The store right after initialisation of a new database: the catalog with the ids
  1 to 121 in order, the default administrator, no booking.\<close>

definition initial_slots :: "slot_row list" where
  "initial_slots =
     map (\<lambda>(i, t, n, p, b). \<lparr>s_id = i, slot_type = t, slot_name = n, price = p, is_booked = b\<rparr>)
         (zip [1..<122] fixed_catalog)"

definition initial_db :: db where
  "initial_db = \<lparr>slots = initial_slots, users = [1], bookings = []\<rparr>"

text \<open>A small store for examples: two VIP slots, the first one booked by user 1.\<close>

definition sample_db :: db where
  "sample_db =
     \<lparr>slots = [\<lparr>s_id = 1, slot_type = ''vip'', slot_name = ''V1'', price = 500, is_booked = True\<rparr>,
               \<lparr>s_id = 2, slot_type = ''vip'', slot_name = ''V2'', price = 500, is_booked = False\<rparr>,
               \<lparr>s_id = 3, slot_type = ''normal'', slot_name = ''N1'', price = 320, is_booked = False\<rparr>],
      users = [1],
      bookings = [\<lparr>slot_id = 1, user_id = Some 1, booking_time = 10,
                   booking_reference = ''0A1B2C3D4E5F6071'', total_amount = 518,
                   status = ''active''\<rparr>]\<rparr>"

section \<open>Comparing the two modules\<close>





section \<open>The catalog\<close>

lemma populate_initial: "populate_slots [] = Inr initial_slots"
  by code_simp

lemma init_initial: "init_db empty_db = Inr initial_db"
  by (simp add: init_db_def empty_db_def populate_initial initial_db_def)

text \<open>
  C7. Initialisation of a new database creates exactly the fixed catalog: the ten VIP
  slots V1..V10 at 500, the hundred executive slots E0101..E0520 (rows 1..5, columns
  1..20, two digits each) at 350 and the eleven normal slots N1..N11 at 320, in this
  order, 121 slots, each unoccupied; no insert fails, and \<^verbatim>\<open>init_db\<close> stores exactly what
  \<^verbatim>\<open>populate_slots\<close> produces on the empty table.
\<close>

theorem catalog_created:
  "map_sum id (map columns) (populate_slots []) = Inr fixed_catalog
   \<and> map_sum id length (populate_slots []) = Inr 121
   \<and> map_sum id slots (init_db empty_db) = populate_slots []
   \<and> length vip_names = 10 \<and> length executive_names = 100 \<and> length normal_names = 11"
proof -
  have "map columns initial_slots = fixed_catalog"
    by code_simp
  moreover have "length initial_slots = 121"
    by code_simp
  moreover have "length vip_names = 10 \<and> length executive_names = 100 \<and> length normal_names = 11"
    by code_simp
  ultimately show ?thesis
    by (simp add: populate_initial init_initial initial_db_def)
qed

section \<open>Fees\<close>


section \<open>Reset and statistics\<close>

lemma stats_fold:
  "fold (\<lambda>row stats. case row of (t, n, b, a) \<Rightarrow> stats(t \<mapsto> g n b a)) (map (\<lambda>k. (k, h k)) ks) m t
   = (if t \<in> set ks then (case h t of (n, b, a) \<Rightarrow> Some (g n b a)) else m t)"
  by (induction ks arbitrary: m) (auto split: prod.splits)

lemma get_booking_stats_eq:
  "get_booking_stats d t =
     (if t \<in> set (map slot_type (slots d)) then
        Some \<lparr>total = length (filter (\<lambda>s. slot_type s = t) (slots d)),
              booked = sum_list (map (\<lambda>s. if is_booked s then 1 else 0)
                                     (filter (\<lambda>s. slot_type s = t) (slots d))),
              available = sum_list (map (\<lambda>s. if \<not> is_booked s then 1 else 0)
                                     (filter (\<lambda>s. slot_type s = t) (slots d)))\<rparr>
      else None)"
  unfolding get_booking_stats_def stats_rows_def
  by (simp add: stats_fold Let_def)

lemma sum_list_zero: "sum_list (map (\<lambda>s. 0::nat) xs) = 0"
  by (induction xs) auto

lemma sum_list_one: "sum_list (map (\<lambda>s. Suc 0) xs) = length xs"
  by (induction xs) auto

lemma filter_type_reset:
  "filter (\<lambda>s. slot_type s = t) (map (\<lambda>s. s\<lparr>is_booked := False\<rparr>) xs)
   = map (\<lambda>s. s\<lparr>is_booked := False\<rparr>) (filter (\<lambda>s. slot_type s = t) xs)"
  by (induction xs) auto

text \<open>
  C6. In every store, the reset returns its success dictionary, discards every booking
  row and frees every slot; the statistics read afterwards have an entry for exactly the
  tiers of the table, and every entry has \<open>booked = 0\<close> and \<open>available = total\<close>, the
  number of slots of the tier.
\<close>

theorem reset_then_stats:
  "bookings (fst (reset_all_bookings d)) = []
   \<and> snd (reset_all_bookings d) = Inr (Done ''All bookings reset'')
   \<and> list_all (\<lambda>s. \<not> is_booked s) (slots (fst (reset_all_bookings d)))
   \<and> dom (get_booking_stats (fst (reset_all_bookings d))) = set (map slot_type (slots d))
   \<and> (\<forall>t st. get_booking_stats (fst (reset_all_bookings d)) t = Some st \<longrightarrow>
         booked st = 0 \<and> available st = total st
         \<and> total st = length (filter (\<lambda>s. slot_type s = t) (slots d)))"
proof -
  let ?d' = "fst (reset_all_bookings d)"
  have sl: "slots ?d' = map (\<lambda>s. s\<lparr>is_booked := False\<rparr>) (slots d)"
    by (simp add: reset_all_bookings_def)
  have types: "set (map slot_type (slots ?d')) = set (map slot_type (slots d))"
    by (simp add: sl image_image)
  have "dom (get_booking_stats ?d') = set (map slot_type (slots d))"
    unfolding types [symmetric] by (auto simp: get_booking_stats_eq dom_def)
  moreover have "\<forall>t st. get_booking_stats ?d' t = Some st \<longrightarrow>
         booked st = 0 \<and> available st = total st
         \<and> total st = length (filter (\<lambda>s. slot_type s = t) (slots d))"
    by (auto simp: get_booking_stats_eq sl filter_type_reset o_def sum_list_zero sum_list_one
             split: if_splits)
  moreover have "list_all (\<lambda>s. \<not> is_booked s) (slots ?d')"
    by (simp add: sl list_all_iff)
  ultimately show ?thesis
    by (simp add: reset_all_bookings_def)
qed

theorem reset_then_stats_witness:
  "get_booking_stats (fst (reset_all_bookings sample_db)) ''vip''
     = Some \<lparr>total = 2, booked = 0, available = 2\<rparr>
   \<and> get_booking_stats sample_db ''vip'' = Some \<lparr>total = 2, booked = 1, available = 1\<rparr>
   \<and> bookings (fst (reset_all_bookings sample_db)) = []"
proof -
  have e: "get_booking_stats (fst (reset_all_bookings sample_db)) ''vip''
     = Some \<lparr>total = 2, booked = 0, available = 2\<rparr>"
    by (simp add: get_booking_stats_eq reset_all_bookings_def sample_db_def)
  have "get_booking_stats sample_db ''vip'' = Some \<lparr>total = 2, booked = 1, available = 1\<rparr>"
    by (simp add: get_booking_stats_eq sample_db_def)
  with e reset_then_stats [of sample_db] show ?thesis by simp
qed

section \<open>Outcomes of the booking transaction\<close>

lemma insert_bookings_Inr:
  "insert_bookings rs bs = Inr bs' \<Longrightarrow> bs' = bs @ rs"
proof (induction rs arbitrary: bs)
  case Nil
  then show ?case by simp
next
  case (Cons r rs)
  from Cons.prems have "insert_bookings rs (bs @ [r]) = Inr bs'"
    by (auto simp: insert_booking_def split: if_splits)
  from Cons.IH [OF this] show ?case by simp
qed

lemma book_slots_conflict:
  assumes "already_booked tier req d \<noteq> []"
  shows "book_slots tier req uid amount ref now d =
           (d, Inr (Failure (''Slots already booked: '' @ join '', '' (already_booked tier req d))))"
proof -
  from assms have "req \<noteq> []"
    by (auto simp: already_booked_def)
  with assms show ?thesis
    by (simp add: book_slots_def)
qed

lemma set_already_booked:
  "set (already_booked tier req d) =
     {slot_name s | s. s \<in> set (slots d) \<and> slot_name s \<in> set req \<and> slot_type s = tier \<and> is_booked s}"
  by (auto simp: already_booked_def)

lemma book_slots_success:
  assumes "book_slots tier req uid amount ref now d = (d', Inr (Success m c p r))"
  shows "req \<noteq> [] \<and> already_booked tier req d = [] \<and> slot_data tier req d \<noteq> []
         \<and> slots d' = mark_booked (map s_id (slot_data tier req d)) (slots d)
         \<and> bookings d' = bookings d @ bookings_to_insert (map s_id (slot_data tier req d)) uid ref amount now
         \<and> users d' = users d
         \<and> m = ''Successfully booked '' @ str_nat (length req) @ '' slots''
         \<and> c = length req \<and> p = price (hd (slot_data tier req d)) \<and> r = ref"
  using assms
  by (auto simp: book_slots_def Let_def split: if_splits list.splits sum.splits
           dest!: insert_bookings_Inr)

text \<open>
  Whenever the request resolves to two or more slots and none of them is occupied, the
  second booking row repeats the reference of the first and is rejected by the unique
  column: the call raises and the transaction is rolled back.
\<close>

lemma insert_two_same_ref:
  "booking_reference r1 = booking_reference r2 \<Longrightarrow>
   insert_bookings (r1 # r2 # rs) bs = Inl IntegrityError"
  by (simp add: insert_booking_def)

lemma several_slots_raise:
  assumes "already_booked tier req d = []" and "2 \<le> length (slot_data tier req d)"
  shows "book_slots tier req uid amount ref now d = (d, Inl IntegrityError)"
proof -
  from assms(2) obtain a b rest where sd: "slot_data tier req d = a # b # rest"
    by (cases "slot_data tier req d" rule: list.exhaust; simp; case_tac x22; simp)
  then have ne: "req \<noteq> []"
    by (auto simp: slot_data_def)
  have "insert_bookings (bookings_to_insert (map s_id (a # b # rest)) uid ref amount now)
                        (bookings d) = Inl IntegrityError"
    unfolding bookings_to_insert_def list.map
    by (rule insert_two_same_ref) simp
  with assms(1) sd ne show ?thesis
    by (simp add: book_slots_def Let_def)
qed

text \<open>
  C1. On the freshly initialised store, booking the two free VIP slots V1 and V2 does not
  return: the second booking row carries the reference of the first, the unique column
  rejects it, and the call leaves with an integrity error and the store unchanged.
\<close>

theorem two_slots_raise:
  "init_db empty_db = Inr initial_db
   \<and> book_slots ''vip'' [''V1'', ''V2''] (Some 1) 1018 ''9F86D081884C7D65'' 0 initial_db
       = (initial_db, Inl IntegrityError)"
proof -
  have "book_slots ''vip'' [''V1'', ''V2''] (Some 1) 1018 ''9F86D081884C7D65'' 0 initial_db
        = (initial_db, Inl IntegrityError)"
    by code_simp
  then show ?thesis by (simp add: init_initial)
qed

text \<open>
  C4. When every requested name resolves to a slot of the given tier and at least one of
  these slots is occupied, the call returns the failure dictionary whose message is
  \<^verbatim>\<open>Slots already booked: \<close> followed by the comma-separated names of all the occupied
  requested slots of the tier, and the store is unchanged.
\<close>

theorem conflict_names_all:
  assumes "\<forall>n \<in> set req. \<exists>s \<in> set (slots d). slot_name s = n \<and> slot_type s = tier"
    and "\<exists>s \<in> set (slots d). slot_name s \<in> set req \<and> slot_type s = tier \<and> is_booked s"
  shows "\<exists>names.
           book_slots tier req uid amount ref now d =
             (d, Inr (Failure (''Slots already booked: '' @ join '', '' names)))
           \<and> set names = {slot_name s | s. s \<in> set (slots d) \<and> slot_name s \<in> set req
                                           \<and> slot_type s = tier \<and> is_booked s}"
proof -
  from assms(2) have "already_booked tier req d \<noteq> []"
    by (auto simp: already_booked_def filter_empty_conv)
  from book_slots_conflict [OF this] set_already_booked show ?thesis
    by blast
qed

text \<open>With V1 and V2 both occupied, booking them again names both.\<close>

theorem conflict_names_all_witness:
  "book_slots ''vip'' [''V1'', ''V2''] (Some 1) 1018 ''9F86D081884C7D65'' 11
     (sample_db\<lparr>slots := map (\<lambda>s. s\<lparr>is_booked := True\<rparr>) (slots sample_db)\<rparr>)
   = (sample_db\<lparr>slots := map (\<lambda>s. s\<lparr>is_booked := True\<rparr>) (slots sample_db)\<rparr>,
      Inr (Failure ''Slots already booked: V1, V2''))"
proof -
  let ?d = "sample_db\<lparr>slots := map (\<lambda>s. s\<lparr>is_booked := True\<rparr>) (slots sample_db)\<rparr>"
  have h1: "\<forall>n \<in> set [''V1'', ''V2'']. \<exists>s \<in> set (slots ?d). slot_name s = n \<and> slot_type s = ''vip''"
    by (simp add: sample_db_def)
  have h2: "\<exists>s \<in> set (slots ?d). slot_name s \<in> set [''V1'', ''V2''] \<and> slot_type s = ''vip'' \<and> is_booked s"
    by (simp add: sample_db_def)
  have names: "already_booked ''vip'' [''V1'', ''V2''] ?d = [''V1'', ''V2'']"
    by (simp add: already_booked_def sample_db_def)
  from conflict_names_all [OF h1 h2, of "Some 1" 1018 "''9F86D081884C7D65''" 11]
  obtain ns where "book_slots ''vip'' [''V1'', ''V2''] (Some 1) 1018 ''9F86D081884C7D65'' 11 ?d
                   = (?d, Inr (Failure (''Slots already booked: '' @ join '', '' ns)))"
    by blast
  moreover have "book_slots ''vip'' [''V1'', ''V2''] (Some 1) 1018 ''9F86D081884C7D65'' 11 ?d
                 = (?d, Inr (Failure (''Slots already booked: '' @ join '', '' [''V1'', ''V2''])))"
    using book_slots_conflict [of "''vip''" "[''V1'', ''V2'']" ?d] names by simp
  ultimately show ?thesis by simp
qed




text \<open>
  The remaining case, some names resolving to free slots and others not resolving: the
  resolved slots are booked and the count reported is that of the request.
\<close>

lemma partial_booking_example:
  "book_slots ''vip'' [''V2'', ''ZZ''] (Some 1) 1018 ''9F86D081884C7D65'' 11 sample_db
     = (sample_db\<lparr>slots := mark_booked [2] (slots sample_db),
                  bookings := bookings sample_db
                    @ bookings_to_insert [2] (Some 1) ''9F86D081884C7D65'' 1018 11\<rparr>,
        Inr (Success ''Successfully booked 2 slots'' 2 500 ''9F86D081884C7D65''))"
  by code_simp




section \<open>Occupancy and booking rows\<close>

lemma occupancy_consistent_iff:
  "occupancy_consistent d \<longleftrightarrow>
     (\<forall>s \<in> set (slots d). is_booked s \<longleftrightarrow>
        (\<exists>b \<in> set (bookings d). slot_id b = s_id s \<and> status b = ''active''))"
  by (simp add: occupancy_consistent_def list_all_iff list_ex_iff)

lemma initial_consistent: "occupancy_consistent initial_db"
  by code_simp

lemma book_consistent:
  assumes "occupancy_consistent d"
    and "book_slots tier req uid amount ref now d = (d', Inr (Success m c p r))"
  shows "occupancy_consistent d'"
proof -
  note s = book_slots_success [OF assms(2)]
  let ?ids = "map s_id (slot_data tier req d)"
  have sl: "slots d' = mark_booked ?ids (slots d)" using s by simp
  have bk: "bookings d' = bookings d @ bookings_to_insert ?ids uid ref amount now"
    using s by simp
  have new: "\<And>i. (\<exists>b \<in> set (bookings_to_insert ?ids uid ref amount now).
                     slot_id b = i \<and> status b = ''active'') \<longleftrightarrow> i \<in> set ?ids"
    by (auto simp: bookings_to_insert_def)
  show ?thesis
    unfolding occupancy_consistent_iff
  proof
    fix s' assume "s' \<in> set (slots d')"
    then obtain s0 where s0: "s0 \<in> set (slots d)"
      and s': "s' = (if s_id s0 \<in> set ?ids then s0\<lparr>is_booked := True\<rparr> else s0)"
      by (auto simp: sl mark_booked_def)
    from assms(1) s0 have old: "is_booked s0 \<longleftrightarrow>
        (\<exists>b \<in> set (bookings d). slot_id b = s_id s0 \<and> status b = ''active'')"
      by (simp add: occupancy_consistent_iff)
    have id: "s_id s' = s_id s0" using s' by simp
    have "is_booked s' \<longleftrightarrow> (is_booked s0 \<or> s_id s0 \<in> set ?ids)"
      using s' by simp
    also have "\<dots> \<longleftrightarrow> (\<exists>b \<in> set (bookings d'). slot_id b = s_id s' \<and> status b = ''active'')"
      unfolding bk id using old new [of "s_id s0"] by auto
    finally show "is_booked s' \<longleftrightarrow>
        (\<exists>b \<in> set (bookings d'). slot_id b = s_id s' \<and> status b = ''active'')" .
  qed
qed

lemma reset_consistent:
  "occupancy_consistent (fst (reset_all_bookings d))"
  by (simp add: occupancy_consistent_iff reset_all_bookings_def)

text \<open>
  C5. In every store reachable from the initial catalog by successful bookings and
  resets, a slot is occupied if and only if some active booking row refers to it
  (\<open>occupancy_consistent\<close>, see \<open>occupancy_consistent_iff\<close>).
\<close>

theorem reachable_occupancy:
  "reachable d \<Longrightarrow> occupancy_consistent d"
proof (induction rule: reachable.induct)
  case (reach_init d)
  then show ?case using initial_consistent by (simp add: init_initial)
next
  case (reach_book d tier req uid amount ref now d' m c p r)
  then show ?case by (blast intro: book_consistent)
next
  case (reach_reset d d' m)
  then show ?case using reset_consistent [of d] by (metis fst_conv)
qed

theorem reachable_occupancy_witness:
  "reachable (fst (book_slots ''vip'' [''V3''] (Some 1) 518 ''9F86D081884C7D65'' 11 initial_db))
   \<and> length (bookings (fst (book_slots ''vip'' [''V3''] (Some 1) 518 ''9F86D081884C7D65'' 11 initial_db))) = 1
   \<and> occupancy_consistent
       (fst (book_slots ''vip'' [''V3''] (Some 1) 518 ''9F86D081884C7D65'' 11 initial_db))"
proof -
  let ?call = "book_slots ''vip'' [''V3''] (Some 1) 518 ''9F86D081884C7D65'' 11 initial_db"
  have r0: "reachable initial_db"
    by (rule reach_init) (rule init_initial)
  have res: "snd ?call = Inr (Success ''Successfully booked 1 slots'' 1 500 ''9F86D081884C7D65'')"
    by code_simp
  have len: "length (bookings (fst ?call)) = 1"
    by code_simp
  have "?call = (fst ?call, Inr (Success ''Successfully booked 1 slots'' 1 500 ''9F86D081884C7D65''))"
    using res by (metis prod.collapse)
  from reach_book [OF r0 this] have r1: "reachable (fst ?call)" .
  from reachable_occupancy [OF r1] r1 len show ?thesis by blast
qed

section \<open>Bookings of a user\<close>









section \<open>The two storage modules\<close>



















end
